theory Spec2Isabelle
  imports Main
begin

section \<open>Errors and configuration\<close>

text \<open>
  Go's \<open>error\<close> values. \<open>ErrorNew msg\<close> is \<open>errors.New(msg)\<close> (and any error an external
  collaborator returns), \<open>Wrap err msg\<close> is \<open>errors.Wrap(err, msg)\<close> and
  \<open>errors.Wrapf(err, ...)\<close> with the formatted message. A nil error is \<open>None\<close> of
  \<open>error option\<close>.
\<close>

datatype error = ErrorNew string | Wrap error string

text \<open>A run-time panic ends the program; no state survives it.\<close>

datatype panic = NilPointerDereference

text \<open>
  The fields of \<open>config.Config\<close> that the package reads: \<open>cfg.Default\<close>, \<open>cfg.Server\<close>,
  \<open>cfg.Request\<close> and \<open>cfg.Input\<close>.
\<close>

record default_config =
  ProtoPath :: "string list"
  ProtoFile :: "string list"
  Package :: string
  Service :: string

record server_config =
  Host :: string
  Port :: string
  Reflection :: bool

record header_config =
  Key :: string
  Val :: string

record request_config =
  Header :: "header_config list"
  Web :: bool

record input_config =
  PromptFormat :: string

record config =
  Default :: default_config
  Server :: server_config
  Request :: request_config
  Input :: input_config

section \<open>Path resolver\<close>

text \<open>
  \<open>resolveProtoPaths\<close>. The shell-words parser (\<open>shellwords.NewParser()\<close> with
  \<open>ParseEnv = true\<close>) belongs to a library outside the sources: it is the parameter
  \<open>parser\<close>, which returns the tokens of an entry or the library's error.

  \<open>parse\<close> is the closure of the same name: the parser's error is passed on, more than one
  token is the error \<open>failed to parse proto path\<close>, no token is the empty path, and one
  token is that token.
\<close>

definition parse :: "(string \<Rightarrow> error + string list) \<Rightarrow> string \<Rightarrow> error + string" where
  "parse parser p =
     (case parser p of
        Inl err \<Rightarrow> Inl err
      | Inr res \<Rightarrow>
          if length res > 1 then Inl (ErrorNew ''failed to parse proto path'')
          else if length res = 0 then Inr ''''
          else Inr (res ! 0))"

text \<open>
  The loop over \<open>cfg.Default.ProtoPath\<close>, with its two variables: the map \<open>encountered\<close>
  (a missing key reads as false) and the slice \<open>paths\<close>. An error returns at once.
\<close>

fun resolveProtoPaths_loop ::
  "(string \<Rightarrow> error + string list) \<Rightarrow> string list \<Rightarrow> (string \<Rightarrow> bool) \<Rightarrow> string list
     \<Rightarrow> error + string list" where
  "resolveProtoPaths_loop parser [] encountered paths = Inr paths"
| "resolveProtoPaths_loop parser (p # ps) encountered paths =
     (case parse parser p of
        Inl err \<Rightarrow> Inl err
      | Inr path \<Rightarrow>
          if encountered path \<or> path = '''' then
            resolveProtoPaths_loop parser ps encountered paths
          else
            resolveProtoPaths_loop parser ps (encountered(path := True)) (paths @ [path]))"

definition resolveProtoPaths ::
  "(string \<Rightarrow> error + string list) \<Rightarrow> config \<Rightarrow> error + string list" where
  "resolveProtoPaths parser cfg =
     resolveProtoPaths_loop parser (ProtoPath (Default cfg)) (\<lambda>_. False) []"

text \<open>\<open>resolveProtoFiles\<close>: the loop appends every entry that is not the empty string.\<close>

fun resolveProtoFiles_loop :: "string list \<Rightarrow> string list \<Rightarrow> string list" where
  "resolveProtoFiles_loop [] files = files"
| "resolveProtoFiles_loop (f # fs) files =
     (if f \<noteq> '''' then resolveProtoFiles_loop fs (files @ [f])
      else resolveProtoFiles_loop fs files)"

definition resolveProtoFiles :: "config \<Rightarrow> string list" where
  "resolveProtoFiles conf = resolveProtoFiles_loop (ProtoFile (Default conf)) []"

text \<open>
  Modelled from the spec: the shell-words library is not part of the sources; the design
  says that each entry is tokenized with shell-word splitting and environment-variable
  substitution. \<open>sample_parser getenv\<close> does this for entries without quotes or escapes:
  it splits at spaces, replaces a token \<open>$NAME\<close> by the value of \<open>NAME\<close> (nothing when
  unset) and drops empty tokens. It only instantiates the parameter \<open>parser\<close> at concrete
  inputs.
\<close>

fun split_spaces :: "string \<Rightarrow> string \<Rightarrow> string list" where
  "split_spaces [] cur = (if cur = [] then [] else [cur])"
| "split_spaces (c # cs) cur =
     (if c = CHR '' '' then (if cur = [] then split_spaces cs [] else cur # split_spaces cs [])
      else split_spaces cs (cur @ [c]))"

fun expand_env :: "(string \<Rightarrow> string option) \<Rightarrow> string \<Rightarrow> string" where
  "expand_env getenv [] = []"
| "expand_env getenv (c # name) =
     (if c = CHR ''$'' then (case getenv name of None \<Rightarrow> [] | Some v \<Rightarrow> v) else c # name)"

definition sample_parser :: "(string \<Rightarrow> string option) \<Rightarrow> string \<Rightarrow> error + string list" where
  "sample_parser getenv p =
     Inr (filter (\<lambda>t. t \<noteq> []) (map (expand_env getenv) (split_spaces p [])))"

definition sample_config :: "string list \<Rightarrow> string list \<Rightarrow> config" where
  "sample_config paths files =
     \<lparr> Default = \<lparr> ProtoPath = paths, ProtoFile = files, Package = '''', Service = '''' \<rparr>,
       Server = \<lparr> Host = ''localhost'', Port = ''50051'', Reflection = False \<rparr>,
       Request = \<lparr> Header = [], Web = False \<rparr>,
       Input = \<lparr> PromptFormat = ''{package}.{service}'' \<rparr> \<rparr>"

section \<open>The facade's cleanup\<close>

text \<open>
  \<open>InteractorParams\<close> of package \<open>usecase\<close>; an interface field is \<open>None\<close> when it is nil.
  The fields carry the prefix \<open>params_\<close>, since package \<open>di\<close> has functions \<open>Env\<close>,
  \<open>GRPCClient\<close> and \<open>DynamicBuilder\<close>.
\<close>

record ('v, 'o, 'i, 'b, 'c) interactorParams =
  params_Env :: "'v option"
  params_OutputPort :: "'o option"
  params_InputterPort :: "'i option"
  params_DynamicBuilder :: "'b option"
  params_GRPCClient :: "'c option"

text \<open>
  \<open>Cleanup\<close>. The client's \<open>Close\<close> is the parameter \<open>close\<close>. The last argument and the
  second result are the calls made to \<open>close\<close> so far, in order: the effect of the method.
\<close>

definition Cleanup ::
  "('c \<Rightarrow> 'ctx \<Rightarrow> error option) \<Rightarrow> ('v, 'o, 'i, 'b, 'c) interactorParams \<Rightarrow> 'ctx
     \<Rightarrow> ('c \<times> 'ctx) list \<Rightarrow> error option \<times> ('c \<times> 'ctx) list" where
  "Cleanup close p ctx calls =
     (case params_GRPCClient p of
        Some c \<Rightarrow> (close c ctx, calls @ [(c, ctx)])
      | None \<Rightarrow> (None, calls))"

section \<open>Lazy singletons of package di\<close>

text \<open>
  The components come from packages outside the sources. A constructor that cannot fail
  is represented by the call that built the handle; \<open>entity.Header{Key, Val}\<close> likewise.
\<close>

datatype entity_Header = Entity_Header string string

datatype presenter_JSONPresenter = presenter_NewJSONWithIndent

datatype 'r inputter_JSONFile = inputter_NewJSONFile 'r

datatype 'v inputter_PromptInputter = inputter_NewPrompt string "'v option"

datatype protobuf_DynamicBuilder = protobuf_NewDynamicBuilder

text \<open>
  The calls that can fail, or whose result depends on the world outside, are parameters:
  \<open>'c\<close> is a gRPC client, \<open>'v\<close> an environment, \<open>'d\<close> the parsed descriptors and \<open>'m\<close> the
  services and messages that \<open>ListServices\<close> returns together. A call that returns a value
  and an error returns \<open>Inl err\<close> for a nil value with the error \<open>err\<close>, and \<open>Inr v\<close> for the
  value \<open>v\<close> with a nil error. \<open>UsePackage\<close> and \<open>UseService\<close> change the environment they
  are called on and return an error or nil.
\<close>

record ('c, 'v, 'd, 'm) externals =
  shellwords_Parse :: "string \<Rightarrow> error + string list"
  protobuf_ParseFile :: "string list \<Rightarrow> string list \<Rightarrow> error + 'd"
  grpc_NewClient :: "string \<Rightarrow> bool \<Rightarrow> error + 'c"
  grpc_NewWebClient :: "string \<Rightarrow> bool \<Rightarrow> protobuf_DynamicBuilder option \<Rightarrow> 'c"
  ReflectionEnabled :: "'c \<Rightarrow> bool"
  ListServices :: "'c \<Rightarrow> error + 'm"
  environment_NewFromServices :: "'m \<Rightarrow> entity_Header list \<Rightarrow> 'v"
  environment_New :: "'d \<Rightarrow> entity_Header list \<Rightarrow> 'v"
  UsePackage :: "'v \<Rightarrow> string \<Rightarrow> error option \<times> 'v"
  UseService :: "'v \<Rightarrow> string \<Rightarrow> error option \<times> 'v"

text \<open>
  \<open>initializer\<close>: the registered functions, the cached result and the flag. The fields \<open>f\<close>
  and \<open>done\<close> carry the prefix \<open>initializer_\<close>. A registered function is a value of \<open>'f\<close>,
  which the caller of \<open>init\<close> knows how to run. An aggregate of errors is the list of
  the errors; an \<open>error\<close> that is nil is \<open>None\<close>.
\<close>

record 'f initializer =
  initializer_f :: "'f list"
  initializer_resultCache :: "error list option"
  initializer_done :: bool

text \<open>
  The six closures that \<open>initDependencies\<close> registers, each with the variables it
  captures (\<open>cfg\<close> and \<open>in\<close> of the call that registered them).
\<close>

datatype 'r constructor =
    Call_initJSONFileInputter 'r
  | Call_initPromptInputter config
  | Call_initGRPCClient config
  | Call_initEnv config
  | Call_initJSONCLIPresenter
  | Call_initDynamicBuilder

text \<open>
  The package-level variables: each component with its \<open>sync.Once\<close> (true once \<open>Do\<close> has
  run its function), a nil pointer or interface being \<open>None\<close>. \<open>closeCalls\<close> is the effect
  on the world outside: the clients on which \<open>Close\<close> has been called, in order.
\<close>

record ('c, 'v, 'r) globals =
  env :: "'v option"
  envOnce :: bool
  jsonCLIPresenter :: "presenter_JSONPresenter option"
  jsonCLIPresenterOnce :: bool
  jsonFileInputter :: "'r inputter_JSONFile option"
  jsonFileInputterOnce :: bool
  promptInputter :: "'v inputter_PromptInputter option"
  promptInputterOnce :: bool
  gRPCClient :: "'c option"
  gRPCClientOnce :: bool
  dynamicBuilder :: "protobuf_DynamicBuilder option"
  dynamicBuilderOnce :: bool
  initer :: "'r constructor initializer option"
  initerOnce :: bool
  closeCalls :: "'c list"

text \<open>The state of the package when the program starts.\<close>

definition start :: "('c, 'v, 'r) globals" where
  "start =
     \<lparr> env = None, envOnce = False,
       jsonCLIPresenter = None, jsonCLIPresenterOnce = False,
       jsonFileInputter = None, jsonFileInputterOnce = False,
       promptInputter = None, promptInputterOnce = False,
       gRPCClient = None, gRPCClientOnce = False,
       dynamicBuilder = None, dynamicBuilderOnce = False,
       initer = None, initerOnce = False,
       closeCalls = [] \<rparr>"

text \<open>
  Each function below takes the state and returns its result with the new state. A
  function that can panic returns \<open>Inl\<close> of the panic instead. \<open>once.Do(f)\<close> runs \<open>f\<close> and
  sets the flag when the flag is not set, and does nothing otherwise; a function that
  returns a named result or a local variable assigned in \<open>f\<close> returns nil when \<open>f\<close> is not
  run.
\<close>

definition initJSONCLIPresenter ::
  "('c, 'v, 'r) globals \<Rightarrow> error option \<times> ('c, 'v, 'r) globals" where
  "initJSONCLIPresenter s =
     (if jsonCLIPresenterOnce s then (None, s)
      else (None, s\<lparr>jsonCLIPresenter := Some presenter_NewJSONWithIndent,
                      jsonCLIPresenterOnce := True\<rparr>))"

definition initJSONFileInputter ::
  "'r \<Rightarrow> ('c, 'v, 'r) globals \<Rightarrow> error option \<times> ('c, 'v, 'r) globals" where
  "initJSONFileInputter inp s =
     (if jsonFileInputterOnce s then (None, s)
      else (None, s\<lparr>jsonFileInputter := Some (inputter_NewJSONFile inp),
                      jsonFileInputterOnce := True\<rparr>))"

definition initDynamicBuilder ::
  "('c, 'v, 'r) globals \<Rightarrow> error option \<times> ('c, 'v, 'r) globals" where
  "initDynamicBuilder s =
     (if dynamicBuilderOnce s then (None, s)
      else (None, s\<lparr>dynamicBuilder := Some protobuf_NewDynamicBuilder,
                      dynamicBuilderOnce := True\<rparr>))"

definition DynamicBuilder ::
  "('c, 'v, 'r) globals
     \<Rightarrow> (protobuf_DynamicBuilder option \<times> error option) \<times> ('c, 'v, 'r) globals" where
  "DynamicBuilder s =
     (case initDynamicBuilder s of
        (Some err, s') \<Rightarrow> ((None, Some err), s')
      | (None, s') \<Rightarrow> ((dynamicBuilder s', None), s'))"

text \<open>
  \<open>initGRPCClient\<close>: \<open>addr\<close> is \<open>fmt.Sprintf("%s:%s", host, port)\<close>. In the web branch an
  error of \<open>DynamicBuilder\<close> returns before the assignment; otherwise the variable takes
  what \<open>grpc.NewClient\<close> returns, also when that is nil with an error.
\<close>

definition initGRPCClient ::
  "('c, 'v, 'd, 'm) externals \<Rightarrow> config \<Rightarrow> ('c, 'v, 'r) globals
     \<Rightarrow> error option \<times> ('c, 'v, 'r) globals" where
  "initGRPCClient ext cfg s =
     (if gRPCClientOnce s then (None, s)
      else
        let addr = Host (Server cfg) @ '':'' @ Port (Server cfg) in
        if Web (Request cfg) then
          (case DynamicBuilder s of
             ((b, Some err), s1) \<Rightarrow> (Some err, s1\<lparr>gRPCClientOnce := True\<rparr>)
           | ((b, None), s1) \<Rightarrow>
               (None, s1\<lparr>gRPCClient :=
                            Some (grpc_NewWebClient ext addr (Reflection (Server cfg)) b),
                          gRPCClientOnce := True\<rparr>))
        else
          (case grpc_NewClient ext addr (Reflection (Server cfg)) of
             Inl err \<Rightarrow> (Some err, s\<lparr>gRPCClient := None, gRPCClientOnce := True\<rparr>)
           | Inr c \<Rightarrow> (None, s\<lparr>gRPCClient := Some c, gRPCClientOnce := True\<rparr>)))"

definition GRPCClient ::
  "('c, 'v, 'd, 'm) externals \<Rightarrow> config \<Rightarrow> ('c, 'v, 'r) globals
     \<Rightarrow> ('c option \<times> error option) \<times> ('c, 'v, 'r) globals" where
  "GRPCClient ext cfg s =
     (case initGRPCClient ext cfg s of
        (Some err, s') \<Rightarrow> ((None, Some err), s')
      | (None, s') \<Rightarrow> ((gRPCClient s', None), s'))"

text \<open>
  The end of the function that \<open>initEnv\<close> passes to \<open>envOnce.Do\<close>: the default service is
  set on the environment \<open>e\<close> that the variable \<open>env\<close> holds.
\<close>

definition initEnv_service ::
  "('c, 'v, 'd, 'm) externals \<Rightarrow> config \<Rightarrow> 'v \<Rightarrow> ('c, 'v, 'r) globals
     \<Rightarrow> error option \<times> ('c, 'v, 'r) globals" where
  "initEnv_service ext cfg e s =
     (let svc = Service (Default cfg) in
      if svc \<noteq> '''' then
        (case UseService ext e svc of
           (Some err, e') \<Rightarrow>
             (Some (Wrap err (''failed to set service to env as a default service: '' @ svc)),
              s\<lparr>env := Some e'\<rparr>)
         | (None, e') \<Rightarrow> (None, s\<lparr>env := Some e'\<rparr>))
      else (None, s))"

text \<open>
  The function that \<open>initEnv\<close> passes to \<open>envOnce.Do\<close>, with the value of \<open>rerr\<close> at its
  end. \<open>GRPCClient\<close> returns the variable \<open>gRPCClient\<close> with a nil error also when the
  variable is nil; the call \<open>gRPCClient.ReflectionEnabled()\<close> on it then panics.
\<close>

definition initEnv_body ::
  "('c, 'v, 'd, 'm) externals \<Rightarrow> config \<Rightarrow> ('c, 'v, 'r) globals
     \<Rightarrow> panic + (error option \<times> ('c, 'v, 'r) globals)" where
  "initEnv_body ext cfg s =
     (case resolveProtoPaths (shellwords_Parse ext) cfg of
        Inl err \<Rightarrow> Inr (Some err, s)
      | Inr paths \<Rightarrow>
          let files = resolveProtoFiles cfg in
          (case protobuf_ParseFile ext files paths of
             Inl err \<Rightarrow> Inr (Some err, s)
           | Inr desc \<Rightarrow>
               (case GRPCClient ext cfg s of
                  ((c, Some err), s1) \<Rightarrow> Inr (Some err, s1)
                | ((None, None), s1) \<Rightarrow> Inl NilPointerDereference
                | ((Some c, None), s1) \<Rightarrow>
                    let headers = map (\<lambda>h. Entity_Header (Key h) (Val h)) (Header (Request cfg)) in
                    if ReflectionEnabled ext c then
                      (case ListServices ext c of
                         Inl err \<Rightarrow>
                           Inr (Some (Wrap err ''failed to list services by gRPC reflection''), s1)
                       | Inr svcs_msgs \<Rightarrow>
                           let e = environment_NewFromServices ext svcs_msgs headers in
                           Inr (initEnv_service ext cfg e (s1\<lparr>env := Some e\<rparr>)))
                    else
                      let e = environment_New ext desc headers;
                          s2 = s1\<lparr>env := Some e\<rparr>;
                          pkg = Package (Default cfg)
                      in
                      if pkg \<noteq> '''' then
                        (case UsePackage ext e pkg of
                           (Some err, e') \<Rightarrow>
                             Inr (Some (Wrap err
                                    (''failed to set package to env as a default package: '' @ pkg)),
                                  s2\<lparr>env := Some e'\<rparr>)
                         | (None, e') \<Rightarrow> Inr (initEnv_service ext cfg e' (s2\<lparr>env := Some e'\<rparr>)))
                      else Inr (initEnv_service ext cfg e s2))))"

definition initEnv ::
  "('c, 'v, 'd, 'm) externals \<Rightarrow> config \<Rightarrow> ('c, 'v, 'r) globals
     \<Rightarrow> panic + (error option \<times> ('c, 'v, 'r) globals)" where
  "initEnv ext cfg s =
     (if envOnce s then Inr (None, s)
      else
        (case initEnv_body ext cfg s of
           Inl p \<Rightarrow> Inl p
         | Inr (rerr, s') \<Rightarrow> Inr (rerr, s'\<lparr>envOnce := True\<rparr>)))"

definition Env ::
  "('c, 'v, 'd, 'm) externals \<Rightarrow> config \<Rightarrow> ('c, 'v, 'r) globals
     \<Rightarrow> panic + (('v option \<times> error option) \<times> ('c, 'v, 'r) globals)" where
  "Env ext cfg s =
     (case initEnv ext cfg s of
        Inl p \<Rightarrow> Inl p
      | Inr (Some err, s') \<Rightarrow> Inr ((None, Some err), s')
      | Inr (None, s') \<Rightarrow> Inr ((env s', None), s'))"

text \<open>
  \<open>initPromptInputter\<close>: the prompt inputter is built from whatever \<open>Env\<close> returns, also
  from a nil environment with an error.
\<close>

definition initPromptInputter ::
  "('c, 'v, 'd, 'm) externals \<Rightarrow> config \<Rightarrow> ('c, 'v, 'r) globals
     \<Rightarrow> panic + (error option \<times> ('c, 'v, 'r) globals)" where
  "initPromptInputter ext cfg s =
     (if promptInputterOnce s then Inr (None, s)
      else
        (case Env ext cfg s of
           Inl p \<Rightarrow> Inl p
         | Inr ((e, err), s1) \<Rightarrow>
             Inr (err, s1\<lparr>promptInputter := Some (inputter_NewPrompt (PromptFormat (Input cfg)) e),
                          promptInputterOnce := True\<rparr>)))"

section \<open>Initialization orchestrator\<close>

text \<open>
  Modelled from the spec: \<open>multierror.Append\<close> belongs to a library outside the sources;
  the design describes the aggregate as an ordered collection of the underlying errors,
  one for each failed constructor. Appending to a nil result gives the aggregate of the
  one error.
\<close>

definition multierror_Append :: "error list option \<Rightarrow> error \<Rightarrow> error list option" where
  "multierror_Append result err =
     (case result of None \<Rightarrow> Some [err] | Some errs \<Rightarrow> Some (errs @ [err]))"

definition initializer_register :: "'f initializer \<Rightarrow> 'f list \<Rightarrow> 'f initializer" where
  "initializer_register i fs = i\<lparr>initializer_f := initializer_f i @ fs\<rparr>"

text \<open>
  The loop of \<open>init\<close> over \<open>i.f\<close>; \<open>run\<close> calls a registered function on the state. A
  function that panics ends the loop and the program.
\<close>

fun initializer_init_loop ::
  "('f \<Rightarrow> 's \<Rightarrow> panic + (error option \<times> 's)) \<Rightarrow> 'f list \<Rightarrow> error list option \<Rightarrow> 's
     \<Rightarrow> panic + (error list option \<times> 's)" where
  "initializer_init_loop run [] result s = Inr (result, s)"
| "initializer_init_loop run (f # fs) result s =
     (case run f s of
        Inl p \<Rightarrow> Inl p
      | Inr (Some err, s') \<Rightarrow> initializer_init_loop run fs (multierror_Append result err) s'
      | Inr (None, s') \<Rightarrow> initializer_init_loop run fs result s')"

text \<open>
  \<open>init\<close> returns its result, the initializer after the call and the state. Nothing
  assigns \<open>resultCache\<close>.
\<close>

definition initializer_init ::
  "('f \<Rightarrow> 's \<Rightarrow> panic + (error option \<times> 's)) \<Rightarrow> 'f initializer \<Rightarrow> 's
     \<Rightarrow> panic + (error list option \<times> 'f initializer \<times> 's)" where
  "initializer_init run i s =
     (if initializer_done i then Inr (initializer_resultCache i, i, s)
      else
        let i' = i\<lparr>initializer_done := True\<rparr> in
        (case initializer_init_loop run (initializer_f i') None s of
           Inl p \<Rightarrow> Inl p
         | Inr (result, s') \<Rightarrow> Inr (result, i', s')))"

text \<open>Calling one of the registered closures.\<close>

fun run_constructor ::
  "('c, 'v, 'd, 'm) externals \<Rightarrow> 'r constructor \<Rightarrow> ('c, 'v, 'r) globals
     \<Rightarrow> panic + (error option \<times> ('c, 'v, 'r) globals)" where
  "run_constructor ext (Call_initJSONFileInputter inp) s = Inr (initJSONFileInputter inp s)"
| "run_constructor ext (Call_initPromptInputter cfg) s = initPromptInputter ext cfg s"
| "run_constructor ext (Call_initGRPCClient cfg) s = Inr (initGRPCClient ext cfg s)"
| "run_constructor ext (Call_initEnv cfg) s = initEnv ext cfg s"
| "run_constructor ext Call_initJSONCLIPresenter s = Inr (initJSONCLIPresenter s)"
| "run_constructor ext Call_initDynamicBuilder s = Inr (initDynamicBuilder s)"

definition registered :: "config \<Rightarrow> 'r \<Rightarrow> 'r constructor list" where
  "registered cfg inp =
     [Call_initJSONFileInputter inp, Call_initPromptInputter cfg, Call_initGRPCClient cfg,
      Call_initEnv cfg, Call_initJSONCLIPresenter, Call_initDynamicBuilder]"

text \<open>
  \<open>initDependencies\<close>. \<open>initer\<close> points to the initializer, which \<open>init\<close> changes in place.
  When \<open>init\<close> returns an error, \<open>Close\<close> is called on the variable \<open>gRPCClient\<close> without a
  test: on a nil interface the call panics. The result of \<open>Close\<close> is not used.
\<close>

definition initDependencies ::
  "('c, 'v, 'd, 'm) externals \<Rightarrow> config \<Rightarrow> 'r \<Rightarrow> ('c, 'v, 'r) globals
     \<Rightarrow> panic + (error list option \<times> ('c, 'v, 'r) globals)" where
  "initDependencies ext cfg inp s =
     (let s1 = (if initerOnce s then s
                else s\<lparr>initer := Some (initializer_register
                                          \<lparr>initializer_f = [], initializer_resultCache = None,
                                            initializer_done = False\<rparr>
                                          (registered cfg inp)),
                        initerOnce := True\<rparr>)
      in
      case initer s1 of
        None \<Rightarrow> Inl NilPointerDereference
      | Some i \<Rightarrow>
          (case initializer_init (run_constructor ext) i s1 of
             Inl p \<Rightarrow> Inl p
           | Inr (result, i', s2) \<Rightarrow>
               let s3 = s2\<lparr>initer := Some i'\<rparr> in
               (case result of
                  Some err \<Rightarrow>
                    (case gRPCClient s3 of
                       None \<Rightarrow> Inl NilPointerDereference
                     | Some c \<Rightarrow> Inr (Some err, s3\<lparr>closeCalls := closeCalls s3 @ [c]\<rparr>))
                | None \<Rightarrow> Inr (None, s3))))"

section \<open>Vocabulary of the properties\<close>

text \<open>
  The outcome of an initialization in the design's words: the errors that the
  constructors returned, in order, as one aggregate, the empty aggregate being nil.
  \<open>append_all\<close> is the same with a result to start from.
\<close>

definition aggregate_of :: "error option list \<Rightarrow> error list option" where
  "aggregate_of outs =
     (let errs = map the (filter (\<lambda>out. out \<noteq> None) outs)
      in if errs = [] then None else Some errs)"

definition append_all :: "error list option \<Rightarrow> error option list \<Rightarrow> error list option" where
  "append_all result outs = foldl multierror_Append result (map the (filter (\<lambda>out. out \<noteq> None) outs))"





text \<open>
  Sample collaborators for concrete inputs: a client is its address, the descriptors are
  the files and paths they were parsed from, an environment is its selected package and
  service. \<open>grpc.NewClient\<close> succeeds when \<open>dial\<close> is true and fails otherwise; no other
  call fails.
\<close>

definition sample_externals ::
  "bool \<Rightarrow> (string, string \<times> string, string list \<times> string list, unit) externals" where
  "sample_externals dial =
     \<lparr> shellwords_Parse = sample_parser Map.empty,
       protobuf_ParseFile = (\<lambda>files paths. Inr (files, paths)),
       grpc_NewClient = (\<lambda>addr refl. if dial then Inr addr else Inl (ErrorNew ''failed to dial'')),
       grpc_NewWebClient = (\<lambda>addr refl b. addr),
       ReflectionEnabled = (\<lambda>c. False),
       ListServices = (\<lambda>c. Inr ()),
       environment_NewFromServices = (\<lambda>m hs. ('''', '''')),
       environment_New = (\<lambda>d hs. ('''', '''')),
       UsePackage = (\<lambda>e pkg. (None, (pkg, snd e))),
       UseService = (\<lambda>e svc. (None, (fst e, svc))) \<rparr>"

definition sample_run :: "error option \<Rightarrow> nat \<Rightarrow> panic + (error option \<times> nat)" where
  "sample_run f n = Inr (f, Suc n)"

definition sample_initializer :: "error option initializer" where
  "sample_initializer =
     \<lparr> initializer_f = [Some (ErrorNew ''first''), None, Some (ErrorNew ''third'')],
       initializer_resultCache = None, initializer_done = False \<rparr>"

definition sample_start :: "(string, string \<times> string, nat) globals" where
  "sample_start = start"

definition sample_params :: "nat option \<Rightarrow> (unit, unit, unit, unit, nat) interactorParams" where
  "sample_params c =
     \<lparr> params_Env = None, params_OutputPort = None, params_InputterPort = None,
       params_DynamicBuilder = None, params_GRPCClient = c \<rparr>"

section \<open>Properties of the path resolver\<close>

lemma resolveProtoFiles_loop_filter:
  "resolveProtoFiles_loop fs files = files @ filter (\<lambda>f. f \<noteq> '''') fs"
  by (induction fs arbitrary: files) simp_all

lemma first_occ_Cons:
  "rev (remdups (rev (x # xs))) = x # rev (remdups (rev (filter (\<lambda>y. y \<noteq> x) xs)))"
proof -
  have "remdups (ys @ [x]) = remdups (filter (\<lambda>y. y \<noteq> x) ys) @ [x]" for ys
    by (induction ys) auto
  then show ?thesis by (simp add: rev_filter)
qed

lemma resolveProtoPaths_loop_dedup:
  assumes "\<forall>p \<in> set ps. parse parser p = Inr (tok p)"
  shows "resolveProtoPaths_loop parser ps encountered paths =
           Inr (paths @
             rev (remdups (rev (filter (\<lambda>x. x \<noteq> '''' \<and> \<not> encountered x) (map tok ps)))))"
  using assms
proof (induction ps arbitrary: encountered paths)
  case Nil
  then show ?case by simp
next
  case (Cons p ps)
  have p: "parse parser p = Inr (tok p)" and rest: "\<forall>q \<in> set ps. parse parser q = Inr (tok q)"
    using Cons.prems by simp_all
  show ?case
  proof (cases "encountered (tok p) \<or> tok p = ''''")
    case True
    then show ?thesis using p Cons.IH [OF rest] by auto
  next
    case False
    let ?P = "\<lambda>x. x \<noteq> '''' \<and> \<not> encountered x"
    let ?Q = "\<lambda>x. x \<noteq> '''' \<and> \<not> (encountered(tok p := True)) x"
    have step: "resolveProtoPaths_loop parser (p # ps) encountered paths =
                resolveProtoPaths_loop parser ps (encountered(tok p := True)) (paths @ [tok p])"
      using False p by simp
    have ih: "resolveProtoPaths_loop parser ps (encountered(tok p := True)) (paths @ [tok p]) =
              Inr ((paths @ [tok p]) @ rev (remdups (rev (filter ?Q (map tok ps)))))"
      by (rule Cons.IH [OF rest])
    have "filter (\<lambda>y. y \<noteq> tok p) (filter ?P (map tok ps)) = filter ?Q (map tok ps)"
      unfolding filter_filter by (rule filter_cong) auto
    moreover have "filter ?P (map tok (p # ps)) = tok p # filter ?P (map tok ps)"
      using False by simp
    ultimately have "rev (remdups (rev (filter ?P (map tok (p # ps))))) =
                     tok p # rev (remdups (rev (filter ?Q (map tok ps))))"
      by (simp only: first_occ_Cons)
    then show ?thesis
      by (simp only: step ih append_assoc append_Cons append_Nil)
  qed
qed






text \<open>
  C8. \<open>resolveProtoFiles\<close> neither tokenizes nor substitutes: its result is the list of
  file-name entries without the empty strings, every other entry as it is and in the
  order of the input.
\<close>

theorem resolveProtoFiles_verbatim:
  "resolveProtoFiles conf = filter (\<lambda>f. f \<noteq> '''') (ProtoFile (Default conf))"
  by (simp add: resolveProtoFiles_def resolveProtoFiles_loop_filter)

text \<open>
  C6. The resolved paths are deduplicated by string equality, the first occurrence kept
  and the order of the input kept: when every entry resolves (to \<open>tok p\<close>, empty for an
  entry without tokens), the result is the list of the non-empty \<open>tok p\<close> with every
  later repetition removed. For the entries \<open>./protos\<close>, \<open>$UNSET_VAR\<close>, \<open>./protos\<close>,
  with \<open>UNSET_VAR\<close> unset (the entry expands to no token, or to one empty token), the
  result is the single path \<open>./protos\<close>; with the fourth entry \<open>a b\<close>, which expands to
  two tokens, the result is the error \<open>failed to parse proto path\<close>.
\<close>

theorem resolveProtoPaths_dedup:
  "((\<forall>p \<in> set (ProtoPath (Default cfg)). parse parser p = Inr (tok p)) \<longrightarrow>
      resolveProtoPaths parser cfg =
        Inr (rev (remdups (rev (filter (\<lambda>x. x \<noteq> '''') (map tok (ProtoPath (Default cfg)))))))) \<and>
   (parser ''./protos'' = Inr [''./protos''] \<and>
    (parser ''$UNSET_VAR'' = Inr [] \<or> parser ''$UNSET_VAR'' = Inr ['''']) \<and>
    parser ''a b'' = Inr [''a'', ''b''] \<longrightarrow>
      (ProtoPath (Default cfg) = [''./protos'', ''$UNSET_VAR'', ''./protos''] \<longrightarrow>
         resolveProtoPaths parser cfg = Inr [''./protos'']) \<and>
      (ProtoPath (Default cfg) = [''./protos'', ''$UNSET_VAR'', ''./protos'', ''a b''] \<longrightarrow>
         resolveProtoPaths parser cfg = Inl (ErrorNew ''failed to parse proto path'')))"
proof (intro conjI impI)
  assume "\<forall>p \<in> set (ProtoPath (Default cfg)). parse parser p = Inr (tok p)"
  then show "resolveProtoPaths parser cfg =
        Inr (rev (remdups (rev (filter (\<lambda>x. x \<noteq> '''') (map tok (ProtoPath (Default cfg)))))))"
    unfolding resolveProtoPaths_def by (simp add: resolveProtoPaths_loop_dedup [where tok = tok])
next
  assume h: "parser ''./protos'' = Inr [''./protos''] \<and>
    (parser ''$UNSET_VAR'' = Inr [] \<or> parser ''$UNSET_VAR'' = Inr ['''']) \<and>
    parser ''a b'' = Inr [''a'', ''b'']"
  have p1: "parse parser ''./protos'' = Inr ''./protos''"
    using h by (simp add: parse_def)
  have p2: "parse parser ''$UNSET_VAR'' = Inr ''''"
    using h by (auto simp: parse_def)
  have p3: "parse parser ''a b'' = Inl (ErrorNew ''failed to parse proto path'')"
    using h by (simp add: parse_def)
  {
    assume "ProtoPath (Default cfg) = [''./protos'', ''$UNSET_VAR'', ''./protos'']"
    then show "resolveProtoPaths parser cfg = Inr [''./protos'']"
      by (simp add: resolveProtoPaths_def p1 p2)
  }
  {
    assume "ProtoPath (Default cfg) = [''./protos'', ''$UNSET_VAR'', ''./protos'', ''a b'']"
    then show "resolveProtoPaths parser cfg = Inl (ErrorNew ''failed to parse proto path'')"
      by (simp add: resolveProtoPaths_def p1 p2 p3)
  }
qed

lemma sample_parser_protos: "sample_parser Map.empty ''./protos'' = Inr [''./protos'']"
  by (simp add: sample_parser_def)

lemma sample_parser_unset: "sample_parser Map.empty ''$UNSET_VAR'' = Inr []"
  by (simp add: sample_parser_def)

lemma sample_parser_a_b: "sample_parser Map.empty ''a b'' = Inr [''a'', ''b'']"
  by (simp add: sample_parser_def)

theorem resolveProtoPaths_dedup_witness:
  "parse (sample_parser Map.empty) ''./protos'' = Inr ''./protos'' \<and>
   parse (sample_parser Map.empty) ''$UNSET_VAR'' = Inr '''' \<and>
   sample_parser Map.empty ''./protos'' = Inr [''./protos''] \<and>
   sample_parser Map.empty ''$UNSET_VAR'' = Inr [] \<and>
   sample_parser Map.empty ''a b'' = Inr [''a'', ''b''] \<and>
   resolveProtoPaths (sample_parser Map.empty)
     (sample_config [''./protos'', ''$UNSET_VAR'', ''./protos''] []) = Inr [''./protos''] \<and>
   resolveProtoPaths (sample_parser Map.empty)
     (sample_config [''./protos'', ''$UNSET_VAR'', ''./protos'', ''a b''] []) =
       Inl (ErrorNew ''failed to parse proto path'')"
proof -
  let ?tok = "\<lambda>p. if p = ''./protos'' then ''./protos'' else ''''"
  have h: "\<forall>p \<in> set (ProtoPath (Default (sample_config [''./protos'', ''$UNSET_VAR'', ''./protos''] []))).
      parse (sample_parser Map.empty) p = Inr (?tok p)"
    by (simp add: sample_config_def parse_def sample_parser_protos sample_parser_unset)
  have a: "resolveProtoPaths (sample_parser Map.empty)
     (sample_config [''./protos'', ''$UNSET_VAR'', ''./protos''] []) = Inr [''./protos'']"
    using h resolveProtoPaths_dedup
      [of "sample_config [''./protos'', ''$UNSET_VAR'', ''./protos''] []" "sample_parser Map.empty" ?tok]
    by (simp add: sample_config_def)
  have b: "resolveProtoPaths (sample_parser Map.empty)
     (sample_config [''./protos'', ''$UNSET_VAR'', ''./protos'', ''a b''] []) =
       Inl (ErrorNew ''failed to parse proto path'')"
    using resolveProtoPaths_dedup
      [of "sample_config [''./protos'', ''$UNSET_VAR'', ''./protos'', ''a b''] []"
          "sample_parser Map.empty" ?tok]
    by (simp add: sample_config_def sample_parser_protos sample_parser_unset sample_parser_a_b)
  have c: "parse (sample_parser Map.empty) ''./protos'' = Inr ''./protos'' \<and>
     parse (sample_parser Map.empty) ''$UNSET_VAR'' = Inr ''''"
    by (simp add: parse_def sample_parser_protos sample_parser_unset)
  show ?thesis
    using a b c by (simp only: sample_parser_protos sample_parser_unset sample_parser_a_b simp_thms)
qed



section \<open>Properties of the facade's cleanup\<close>

text \<open>
  C10. \<open>Cleanup\<close> is safe on a nil client: when the field \<open>GRPCClient\<close> is nil it returns
  nil and calls no close operation; otherwise it calls \<open>Close(ctx)\<close> of that client once
  and returns exactly its result.
\<close>

theorem Cleanup_nil_safe:
  "(params_GRPCClient p = None \<longrightarrow> Cleanup close p ctx calls = (None, calls)) \<and>
   (\<forall>c. params_GRPCClient p = Some c \<longrightarrow>
      Cleanup close p ctx calls = (close c ctx, calls @ [(c, ctx)]))"
  by (simp add: Cleanup_def)

theorem Cleanup_nil_safe_witness:
  "params_GRPCClient (sample_params None) = None \<and>
   Cleanup (\<lambda>c ctx. Some (ErrorNew ''closed twice'')) (sample_params None) () [] = (None, []) \<and>
   params_GRPCClient (sample_params (Some 7)) = Some 7 \<and>
   Cleanup (\<lambda>c ctx. Some (ErrorNew ''closed twice'')) (sample_params (Some 7)) () [] =
     (Some (ErrorNew ''closed twice''), [(7, ())])"
  using Cleanup_nil_safe [of "sample_params None" "\<lambda>c ctx. Some (ErrorNew ''closed twice'')" "()" "[]"]
    Cleanup_nil_safe [of "sample_params (Some 7)" "\<lambda>c ctx. Some (ErrorNew ''closed twice'')" "()" "[]"]
  by (simp add: sample_params_def)

section \<open>Properties of the orchestrator\<close>

lemma foldl_multierror_Append_Some:
  "foldl multierror_Append (Some xs) errs = Some (xs @ errs)"
  by (induction errs arbitrary: xs) (simp_all add: multierror_Append_def)

lemma append_all_None: "append_all None outs = aggregate_of outs"
  by (cases "map the (filter (\<lambda>out. out \<noteq> None) outs)")
     (simp_all add: append_all_def aggregate_of_def multierror_Append_def foldl_multierror_Append_Some)

lemma append_all_Cons_None: "append_all result (None # outs) = append_all result outs"
  by (simp add: append_all_def)

lemma append_all_Cons_Some:
  "append_all result (Some e # outs) = append_all (multierror_Append result e) outs"
  by (simp add: append_all_def)

lemma initializer_init_loop_chain:
  "\<exists>ss outs. length ss = Suc (length outs) \<and> ss ! 0 = s \<and> length outs \<le> length fs \<and>
     (\<forall>k < length outs. run (fs ! k) (ss ! k) = Inr (outs ! k, ss ! Suc k)) \<and>
     (if length outs = length fs
      then initializer_init_loop run fs result s = Inr (append_all result outs, last ss)
      else \<exists>p. run (fs ! length outs) (last ss) = Inl p \<and>
               initializer_init_loop run fs result s = Inl p)"
proof (induction fs arbitrary: result s)
  case Nil
  show ?case
    by (rule exI [of _ "[s]"], rule exI [of _ "[]"]) (simp add: append_all_def)
next
  case (Cons f fs)
  show ?case
  proof (cases "run f s")
    case (Inl p)
    show ?thesis
      by (rule exI [of _ "[s]"], rule exI [of _ "[]"]) (simp add: Inl)
  next
    case (Inr a)
    obtain out s1 where a: "a = (out, s1)" by (cases a)
    let ?res = "case out of None \<Rightarrow> result | Some e \<Rightarrow> multierror_Append result e"
    have step: "initializer_init_loop run (f # fs) result s = initializer_init_loop run fs ?res s1"
      using Inr a by (simp split: option.split)
    have app: "append_all result (out # outs) = append_all ?res outs" for outs
      by (cases out) (simp_all add: append_all_Cons_None append_all_Cons_Some)
    from Cons.IH [of s1 ?res] obtain ss outs where
      ih: "length ss = Suc (length outs)" "ss ! 0 = s1" "length outs \<le> length fs"
        "\<forall>k < length outs. run (fs ! k) (ss ! k) = Inr (outs ! k, ss ! Suc k)"
        "if length outs = length fs
         then initializer_init_loop run fs ?res s1 = Inr (append_all ?res outs, last ss)
         else \<exists>p. run (fs ! length outs) (last ss) = Inl p \<and>
                  initializer_init_loop run fs ?res s1 = Inl p"
      by blast
    have ne: "ss \<noteq> []" using ih(1) by auto
    have chain: "\<forall>k < length (out # outs).
        run ((f # fs) ! k) ((s # ss) ! k) = Inr ((out # outs) ! k, (s # ss) ! Suc k)"
    proof (intro allI impI)
      fix k assume k: "k < length (out # outs)"
      show "run ((f # fs) ! k) ((s # ss) ! k) = Inr ((out # outs) ! k, (s # ss) ! Suc k)"
      proof (cases k)
        case 0
        then show ?thesis using Inr a ih(2) by simp
      next
        case (Suc j)
        then show ?thesis using k ih(4) by simp
      qed
    qed
    show ?thesis
      apply (rule exI [of _ "s # ss"], rule exI [of _ "out # outs"])
      using ih(1,3,5) chain ne by (simp add: step app del: initializer_init_loop.simps)
  qed
qed

text \<open>
  C4. A first call of \<open>init\<close> (the flag not yet set) calls the registered functions in
  the order of the list, each on the state that the one before left, whether or not an
  earlier one returned an error: \<open>outs\<close> are their results and \<open>ss\<close> the states. Only a
  panic of a function ends the sequence early (and the program). When all have
  returned, the call returns the errors among \<open>outs\<close>, in order, as one aggregate, nil
  when there is none, and the flag is set.
\<close>

theorem initializer_init_first_call:
  assumes "\<not> initializer_done i"
  shows "\<exists>ss outs. length ss = Suc (length outs) \<and> ss ! 0 = s \<and>
     length outs \<le> length (initializer_f i) \<and>
     (\<forall>k < length outs. run (initializer_f i ! k) (ss ! k) = Inr (outs ! k, ss ! Suc k)) \<and>
     (if length outs = length (initializer_f i)
      then initializer_init run i s =
             Inr (aggregate_of outs, i\<lparr>initializer_done := True\<rparr>, last ss)
      else \<exists>p. run (initializer_f i ! length outs) (last ss) = Inl p \<and>
               initializer_init run i s = Inl p)"
proof -
  from initializer_init_loop_chain [of s "initializer_f i" run None] obtain ss outs where
    c: "length ss = Suc (length outs)" "ss ! 0 = s" "length outs \<le> length (initializer_f i)"
      "\<forall>k < length outs. run (initializer_f i ! k) (ss ! k) = Inr (outs ! k, ss ! Suc k)"
      "if length outs = length (initializer_f i)
       then initializer_init_loop run (initializer_f i) None s = Inr (append_all None outs, last ss)
       else \<exists>p. run (initializer_f i ! length outs) (last ss) = Inl p \<and>
                initializer_init_loop run (initializer_f i) None s = Inl p"
    by blast
  have "if length outs = length (initializer_f i)
      then initializer_init run i s =
             Inr (aggregate_of outs, i\<lparr>initializer_done := True\<rparr>, last ss)
      else \<exists>p. run (initializer_f i ! length outs) (last ss) = Inl p \<and>
               initializer_init run i s = Inl p"
    using c(5) assms by (auto simp: initializer_init_def append_all_None)
  with c(1-4) show ?thesis by blast
qed

text \<open>
  An instance: three registered functions, of which the first and the third return an
  error; all three are called (the state counts the calls) and both errors are returned.
\<close>

theorem initializer_init_first_call_witness:
  "\<not> initializer_done sample_initializer \<and>
   initializer_init sample_run sample_initializer 0 =
     Inr (Some [ErrorNew ''first'', ErrorNew ''third''],
          sample_initializer\<lparr>initializer_done := True\<rparr>, 3)"
proof -
  let ?fs = "[Some (ErrorNew ''first''), None, Some (ErrorNew ''third'')]"
  have h: "\<not> initializer_done sample_initializer"
    by (simp add: sample_initializer_def)
  have fs: "initializer_f sample_initializer = ?fs"
    by (simp add: sample_initializer_def)
  from initializer_init_first_call [OF h, of 0 sample_run] obtain ss outs where
    c: "length ss = Suc (length outs)" "ss ! 0 = 0" "length outs \<le> 3"
      "\<forall>k < length outs. sample_run (?fs ! k) (ss ! k) = Inr (outs ! k, ss ! Suc k)"
      "if length outs = 3
       then initializer_init sample_run sample_initializer 0 =
              Inr (aggregate_of outs, sample_initializer\<lparr>initializer_done := True\<rparr>, last ss)
       else \<exists>p. sample_run (?fs ! length outs) (last ss) = Inl p \<and>
                initializer_init sample_run sample_initializer 0 = Inl p"
    unfolding fs by auto
  have len: "length outs = 3"
  proof (rule ccontr)
    assume "length outs \<noteq> 3"
    then have "\<exists>p. sample_run (?fs ! length outs) (last ss) = Inl p"
      using c(5) by auto
    then show False by (simp add: sample_run_def)
  qed
  have k: "outs ! k = ?fs ! k \<and> ss ! Suc k = Suc (ss ! k)" if "k < 3" for k
    using c(4) len that by (simp add: sample_run_def)
  have outs: "outs = ?fs"
    by (rule nth_equalityI) (use len k in auto)
  have "ss ! Suc 0 = 1" "ss ! Suc (Suc 0) = 2" "ss ! Suc (Suc (Suc 0)) = 3"
    using k [of 0] k [of "Suc 0"] k [of "Suc (Suc 0)"] c(2)
    by (simp_all add: numeral_2_eq_2 numeral_3_eq_3)
  moreover have "ss \<noteq> []"
    using c(1) by auto
  ultimately have "last ss = 3"
    using c(1) len by (simp add: last_conv_nth numeral_3_eq_3)
  moreover have "aggregate_of ?fs = Some [ErrorNew ''first'', ErrorNew ''third'']"
    by (simp add: aggregate_of_def)
  ultimately show ?thesis
    using h c(5) len outs by simp
qed

lemmas eval_defs = initDependencies_def initializer_register_def initializer_init_def registered_def
  initJSONFileInputter_def initPromptInputter_def
  Env_def initEnv_def initEnv_body_def initEnv_service_def GRPCClient_def initGRPCClient_def
  DynamicBuilder_def initDynamicBuilder_def initJSONCLIPresenter_def multierror_Append_def start_def
  sample_start_def sample_externals_def sample_config_def resolveProtoPaths_def resolveProtoFiles_def
  parse_def sample_parser_def Let_def

lemma initializer_init_second_call:
  "initializer_init run i s = Inr (r, i', s') \<Longrightarrow>
   initializer_init run' i' s'' = Inr (initializer_resultCache i, i', s'')"
  by (cases "initializer_done i")
     (auto simp: initializer_init_def Let_def split: sum.splits prod.splits)

text \<open>
  C2. A second call of \<open>init\<close> calls none of the registered functions, but it does not
  return the result of the first call: \<open>init\<close> returns \<open>resultCache\<close>, which nothing
  assigns, so the second call returns nil after a first call that returned an
  aggregate of errors. Here for three registered functions of which two fail, and for
  \<open>initDependencies\<close> under a configuration whose proto path \<open>a b\<close> is ambiguous: the
  first call returns the aggregate of the one error, the second returns nil and leaves
  the state as it is.
\<close>

theorem initializer_init_result_not_cached:
  "(case initializer_init sample_run sample_initializer 0 of
      Inl p \<Rightarrow> False
    | Inr (r1, i1, n1) \<Rightarrow>
        r1 = Some [ErrorNew ''first'', ErrorNew ''third''] \<and> n1 = 3 \<and>
        initializer_init sample_run i1 n1 = Inr (None, i1, n1)) \<and>
   (case initDependencies (sample_externals True) (sample_config [''a b''] []) (0::nat) sample_start of
      Inl p \<Rightarrow> False
    | Inr (r1, s1) \<Rightarrow>
        r1 = Some [ErrorNew ''failed to parse proto path''] \<and>
        initDependencies (sample_externals True) (sample_config [''a b''] []) (0::nat) s1 =
          Inr (None, s1))"
  by (simp add: eval_defs sample_initializer_def sample_run_def numeral_3_eq_3)

section \<open>Properties of the singletons\<close>


















section \<open>Properties of the first initialization\<close>






text \<open>
  C3. When the client's constructor fails, the variable \<open>gRPCClient\<close> is nil and the
  aggregate is not empty; \<open>initDependencies\<close> then calls \<open>Close\<close> on the nil interface
  and panics, where the design closes the client only if it was built and returns the
  aggregate. \<open>Cleanup\<close> of the facade tests the client for nil before the same call.
\<close>

theorem initDependencies_nil_client_panic:
  "grpc_NewClient (sample_externals False) ''localhost:50051'' False = Inl (ErrorNew ''failed to dial'') \<and>
   initDependencies (sample_externals False) (sample_config [''./protos''] [''a.proto'']) (0::nat)
     sample_start = Inl NilPointerDereference \<and>
   Cleanup (\<lambda>c ctx. None) (sample_params None) () [] = (None, [])"
  by (simp add: eval_defs Cleanup_def sample_params_def)

end
